theory Spec2Isabelle
  imports Complex_Main "HOL-Library.AList"
begin

section \<open>Path scheduling: \<open>Game.update_pathfinding_queue\<close> (main.py)\<close>

text \<open>
  The scheduler reads and writes three pieces of the game object: the sprite group
  \<open>self.mobs\<close> (iterated in its insertion order), the rotation index \<open>self.mob_idx\<close>
  and the time stamp \<open>self.last_queue_update\<close>. Of a mob it touches only the attribute
  \<open>can_find_path\<close>; \<open>mob_id\<close> stands for the identity of the Python object.
  Python integers are unbounded, hence \<open>int\<close>.
\<close>

record mob =
  mob_id :: nat
  can_find_path :: bool

record game =
  mobs :: "mob list"
  mob_idx :: int
  last_queue_update :: int

text \<open>
  The body of \<open>for mob in self.mobs\<close> (main.py, lines 563 to 568): every mob is first
  marked ineligible, the mob whose running \<open>count\<close> equals the rotation index is marked
  eligible, and \<open>count\<close> goes up by one.
\<close>

fun flag_mobs :: "int \<Rightarrow> int \<Rightarrow> mob list \<Rightarrow> mob list" where
  "flag_mobs idx count [] = []"
| "flag_mobs idx count (m # ms) =
     (let m1 = m\<lparr>can_find_path := False\<rparr>;
          m2 = (if count = idx then m1\<lparr>can_find_path := True\<rparr> else m1)
      in m2 # flag_mobs idx (count + 1) ms)"

text \<open>
  \<open>update_pathfinding_queue\<close> with the clock reading \<open>now = pg.time.get_ticks()\<close> as an
  argument. The index is put back to 0 only when it \<^emph>\<open>equals\<close> the number of mobs
  (line 561), and it is incremented at the end of every window that fires (line 569).
\<close>

definition update_pathfinding_queue :: "int \<Rightarrow> game \<Rightarrow> game" where
  "update_pathfinding_queue now g =
     (if now - last_queue_update g > 5000 then
        let g1 = g\<lparr>last_queue_update := now\<rparr>;
            g2 = (if mob_idx g1 = int (length (mobs g1)) then g1\<lparr>mob_idx := 0\<rparr> else g1);
            g3 = g2\<lparr>mobs := flag_mobs (mob_idx g2) 0 (mobs g2)\<rparr>
        in g3\<lparr>mob_idx := mob_idx g3 + 1\<rparr>
      else g)"

text \<open>The scheduler state that \<open>Game.new\<close> sets up (main.py, lines 244 and 245).\<close>

definition new_game :: "mob list \<Rightarrow> game" where
  "new_game ms = \<lparr>mobs = ms, mob_idx = 0, last_queue_update = 0\<rparr>"

text \<open>
  Modelled from the spec: the removal of a dead mob from the group (the mob's own update
  step in mobs.py, which is not among the sources). The spec's lifecycle says an agent is
  destroyed when it is removed (death) and that the scheduler state must tolerate agents
  being removed between windows; the group keeps the order of the mobs that remain.
\<close>

definition remove_mob :: "nat \<Rightarrow> game \<Rightarrow> game" where
  "remove_mob i g = g\<lparr>mobs := take i (mobs g) @ drop (Suc i) (mobs g)\<rparr>"

text \<open>
  What happens to the scheduler state over time: a frame calls the scheduling step with
  the clock reading of that frame, or the mob at some position of the group dies.
\<close>

datatype event = Frame int | Death nat

fun step :: "game \<Rightarrow> event \<Rightarrow> game" where
  "step g (Frame now) = update_pathfinding_queue now g"
| "step g (Death i) = remove_mob i g"

definition run :: "game \<Rightarrow> event list \<Rightarrow> game" where
  "run g evs = foldl step g evs"

text \<open>The mobs that are flagged eligible in a state.\<close>

definition eligible :: "game \<Rightarrow> mob list" where
  "eligible g = filter can_find_path (mobs g)"

text \<open>
  \<open>n\<close> consecutive windows with a stable population: each call comes 5001 ms after the
  last one that fired, so each of them fires.
\<close>

fun fire_windows :: "nat \<Rightarrow> game \<Rightarrow> game" where
  "fire_windows 0 g = g"
| "fire_windows (Suc n) g =
     fire_windows n (update_pathfinding_queue (last_queue_update g + 5001) g)"

text \<open>How often the mob with identity \<open>i\<close> is flagged eligible in the next \<open>n\<close> windows.\<close>

fun dispatches :: "nat \<Rightarrow> nat \<Rightarrow> game \<Rightarrow> nat" where
  "dispatches 0 i g = 0"
| "dispatches (Suc n) i g =
     (let g' = update_pathfinding_queue (last_queue_update g + 5001) g
      in length (filter (\<lambda>m. mob_id m = i) (eligible g')) + dispatches n i g')"

text \<open>
  The position in the group that a window uses as its index: line 561 puts an index that
  equals the number of mobs back to 0.
\<close>

definition turn :: "game \<Rightarrow> nat" where
  "turn g = (if mob_idx g = int (length (mobs g)) then 0 else nat (mob_idx g))"

text \<open>
  The number of windows that pass before position \<open>j\<close> is flagged, in a rotation over
  \<open>k\<close> positions whose next turn is \<open>t\<close>.
\<close>

definition wait :: "nat \<Rightarrow> nat \<Rightarrow> nat \<Rightarrow> nat" where
  "wait k t j = (if t \<le> j then j - t else j + k - t)"

text \<open>
  A population of two mobs, and the state it is in after two windows have fired and the
  mob that was flagged last has died.
\<close>

definition two_mobs :: "mob list" where
  "two_mobs = [\<lparr>mob_id = 0, can_find_path = False\<rparr>, \<lparr>mob_id = 1, can_find_path = False\<rparr>]"

definition after_death :: game where
  "after_death = run (new_game two_mobs) [Frame 5001, Frame 10002, Death 1]"


section \<open>The player: player.py\<close>

subsection \<open>Values of pygame and of the settings module\<close>

text \<open>
  \<open>pg.math.Vector2\<close> holds two floats. The model computes with exact real numbers:
  rounding of floating-point arithmetic is not represented.
\<close>

record vec =
  vx :: real
  vy :: real

definition vec_add :: "vec \<Rightarrow> vec \<Rightarrow> vec" where
  "vec_add a b = \<lparr>vx = vx a + vx b, vy = vy a + vy b\<rparr>"

definition vec_scale :: "vec \<Rightarrow> real \<Rightarrow> vec" where
  "vec_scale a k = \<lparr>vx = vx a * k, vy = vy a * k\<rparr>"


text \<open>
  \<open>pg.Rect\<close> stores four integers: the left and top edge, the width and the height. Its
  attributes \<open>centerx\<close> and \<open>centery\<close> are computed from them, and assigning to one moves
  the rectangle.
\<close>

record rect =
  rect_x :: int
  rect_y :: int
  rect_w :: int
  rect_h :: int

definition centerx :: "rect \<Rightarrow> int" where
  "centerx r = rect_x r + rect_w r div 2"

definition centery :: "rect \<Rightarrow> int" where
  "centery r = rect_y r + rect_h r div 2"

definition set_centerx :: "int \<Rightarrow> rect \<Rightarrow> rect" where
  "set_centerx c r = r\<lparr>rect_x := c - rect_w r div 2\<rparr>"

definition set_centery :: "int \<Rightarrow> rect \<Rightarrow> rect" where
  "set_centery c r = r\<lparr>rect_y := c - rect_h r div 2\<rparr>"

text \<open>A float assigned to an attribute of a \<open>Rect\<close> is cut off towards zero.\<close>

definition to_int :: "real \<Rightarrow> int" where
  "to_int r = (if 0 \<le> r then \<lfloor>r\<rfloor> else \<lceil>r\<rceil>)"

text \<open>
  The settings module is not among the sources, so the constants the player reads are
  parameters: one record per weapon (the entries of \<open>WEAPONS[weapon]\<close> that player.py reads
  outside the creation of bullets) and the dictionary \<open>WEAPONS\<close> itself.
\<close>

record weapon_stats =
  rate :: int
  kickback :: real
  weight :: real
  clip_size :: int
  wobble_idle :: real
  wobble_walk :: real
  wobble_sprint :: real

record settings =
  PLAYER_HEALTH :: int
  PLAYER_STAMINA :: real
  PLAYER_SPEED :: real
  PLAYER_HIT_RECT :: rect
  TILESIZE :: int
  WEAPONS :: "string \<Rightarrow> weapon_stats option"

datatype py_error = KeyError | ZeroDivisionError

definition bind :: "py_error + 'a \<Rightarrow> ('a \<Rightarrow> py_error + 'b) \<Rightarrow> py_error + 'b" where
  "bind m f = (case m of Inl e \<Rightarrow> Inl e | Inr a \<Rightarrow> f a)"

definition lookup :: "('k \<times> 'v) list \<Rightarrow> 'k \<Rightarrow> py_error + 'v" where
  "lookup d k = (case map_of d k of None \<Rightarrow> Inl KeyError | Some v \<Rightarrow> Inr v)"

definition field :: "'v option \<Rightarrow> py_error + 'v" where
  "field v = (case v of None \<Rightarrow> Inl KeyError | Some a \<Rightarrow> Inr a)"

subsection \<open>The player object\<close>

text \<open>
  One entry of \<open>self.arsenal\<close>. The entry of the knife has no \<open>clip\<close> and no \<open>reloads\<close>
  key, so both are optional and reading a missing one raises \<open>KeyError\<close>.
\<close>

record arsenal_entry =
  clip :: "int option"
  reloads :: "int option"
  hasWeapon :: bool

text \<open>
  The attributes of \<open>Player\<close> that its game logic reads and writes. \<open>heatlh\<close> is the
  attribute that line 383 assigns; it does not exist before that line has run. Images,
  animation tables, the melee box and the sprite groups are left out.
\<close>

record player =
  health :: int
  heatlh :: "int option"
  stamina :: real
  stamina_decrease_time :: int
  stamina_increase_time :: int
  weapon :: string
  action :: string
  arsenal :: "(string \<times> arsenal_entry) list"
  current_frame :: int
  rect :: rect
  hit_rect :: rect
  last_shot :: int
  aim_wobble :: real
  vel :: vec
  pos :: vec
  rot :: real
  play_static_animation :: bool
  canned_action :: string
  direction :: string

text \<open>
  \<open>Player.__init__\<close>, for the fields above. \<open>image_rect\<close> is the rectangle of the first
  animation frame (\<open>self.image.get_rect()\<close>), and the default weapon and action are the
  ones \<open>Game.load_data\<close> sets (main.py, lines 159 and 160).
\<close>

definition init_player :: "settings \<Rightarrow> rect \<Rightarrow> real \<Rightarrow> real \<Rightarrow> player" where
  "init_player st image_rect x y =
     (let r = image_rect;
          h = set_centery (centery r) (set_centerx (centerx r) (PLAYER_HIT_RECT st));
          p = \<lparr>vx = x * real_of_int (TILESIZE st), vy = y * real_of_int (TILESIZE st)\<rparr>
      in \<lparr>health = PLAYER_HEALTH st div 2,
          heatlh = None,
          stamina = PLAYER_STAMINA st,
          stamina_decrease_time = 0,
          stamina_increase_time = 0,
          weapon = ''knife'',
          action = ''idle'',
          arsenal =
            [(''handgun'', \<lparr>clip = Some 0, reloads = Some 0, hasWeapon = False\<rparr>),
             (''rifle'', \<lparr>clip = Some 0, reloads = Some 0, hasWeapon = False\<rparr>),
             (''shotgun'', \<lparr>clip = Some 0, reloads = Some 0, hasWeapon = False\<rparr>),
             (''knife'', \<lparr>clip = None, reloads = None, hasWeapon = True\<rparr>)],
          current_frame = 0,
          rect = set_centery (to_int (vy p)) (set_centerx (to_int (vx p)) r),
          hit_rect = h,
          last_shot = 0,
          aim_wobble = 0,
          vel = \<lparr>vx = 0, vy = 0\<rparr>,
          pos = p,
          rot = 0,
          play_static_animation = False,
          canned_action = [],
          direction = ''E''\<rparr>)"

subsection \<open>Stamina\<close>

text \<open>\<open>Player.decrease_stamina\<close>; \<open>now\<close> is the reading of \<open>pg.time.get_ticks()\<close>.\<close>

definition decrease_stamina :: "int \<Rightarrow> real \<Rightarrow> player \<Rightarrow> player" where
  "decrease_stamina now decrease_rate p =
     (if now - stamina_decrease_time p > 75 then
        let p1 = p\<lparr>stamina := stamina p - decrease_rate\<rparr>;
            p2 = p1\<lparr>stamina_decrease_time := now\<rparr>
        in if stamina p2 < 0 then p2\<lparr>stamina := 0\<rparr> else p2
      else p)"


subsection \<open>Picking up items\<close>

text \<open>
  The items the player collides with (sprites.py is not among the sources): a
  \<open>WeaponPickup\<close> with its \<open>type\<close> and \<open>ammo_boost\<close>, or any other pickup, of which
  \<open>pickup_item\<close> reads \<open>type\<close>, \<open>AMMO_BOOST\<close> and \<open>HEALTH_BOOST\<close>.
\<close>

datatype item =
  WeaponPickup string int
| MiscPickup string int int

text \<open>
  \<open>Player.pickup_item\<close>. Playing the pickup sound is left out. In the branch for
  ammunition picked up with the knife in hand, the loop \<open>for key, _ in enumerate(self.arsenal)\<close>
  binds \<open>key\<close> to the position 0, 1, ... of each key, not to the key; \<open>self.arsenal[key]\<close>
  in the first round of the loop (or \<open>self.arsenal[""]\<close> after a loop over an empty
  dictionary) therefore raises \<open>KeyError\<close>, the keys being strings.
\<close>

definition pickup_item :: "settings \<Rightarrow> item \<Rightarrow> player \<Rightarrow> py_error + player" where
  "pickup_item st it p =
     (case it of
        WeaponPickup type ammo_boost \<Rightarrow>
          bind (lookup (arsenal p) type) (\<lambda>e.
            if hasWeapon e then
              bind (field (reloads e)) (\<lambda>r.
                Inr (p\<lparr>arsenal := AList.update type (e\<lparr>reloads := Some (r + ammo_boost)\<rparr>) (arsenal p)\<rparr>))
            else
              let e1 = e\<lparr>hasWeapon := True\<rparr>;
                  e2 = e1\<lparr>reloads := Some (ammo_boost - 1)\<rparr>
              in bind (field (WEAPONS st type)) (\<lambda>w.
                   Inr (p\<lparr>arsenal := AList.update type (e2\<lparr>clip := Some (clip_size w)\<rparr>) (arsenal p)\<rparr>)))
      | MiscPickup type AMMO_BOOST HEALTH_BOOST \<Rightarrow>
          if type = ''ammo'' then
            (if weapon p = ''knife'' then Inl KeyError
             else
               bind (lookup (arsenal p) (weapon p)) (\<lambda>e.
                 bind (field (reloads e)) (\<lambda>r.
                   Inr (p\<lparr>arsenal := AList.update (weapon p) (e\<lparr>reloads := Some (r + AMMO_BOOST)\<rparr>) (arsenal p)\<rparr>))))
          else
            let p1 = p\<lparr>health := health p + HEALTH_BOOST\<rparr>
            in if health p1 > PLAYER_HEALTH st then Inr (p1\<lparr>heatlh := Some (PLAYER_HEALTH st)\<rparr>)
               else Inr p1)"

subsection \<open>Input\<close>





subsection \<open>Movement keys\<close>





subsection \<open>Weapons\<close>








subsection \<open>One frame of input\<close>






subsection \<open>Moving and colliding\<close>

datatype axis = AxisX | AxisY

text \<open>
  \<open>Player.update\<close> from line 451 on, for a player \<open>p\<close> as lines 448 to 450
  (\<open>process_input\<close>, \<open>animate\<close>, \<open>update_melee_box\<close>) leave it; none of these calls
  \<open>collide_with_obstacles\<close>. That function is imported from core_functions, which is not
  among the sources, so it is the parameter \<open>collide\<close>: it receives the sprite, the group
  of walls and the axis, and returns the sprite as it leaves it. \<open>dt\<close> is \<open>self.game.dt\<close>.
  Beside the player, the result lists the calls of \<open>collide\<close> in the order they are made,
  each with its axis and the player as passed.
\<close>

definition update ::
  "(player \<Rightarrow> rect list \<Rightarrow> axis \<Rightarrow> player) \<Rightarrow> real \<Rightarrow> rect list \<Rightarrow> player \<Rightarrow>
   player \<times> (axis \<times> player) list" where
  "update collide dt walls p =
     (let p1 = p\<lparr>rect := set_centery (to_int (vy (pos p))) (set_centerx (to_int (vx (pos p))) (rect p))\<rparr>;
          p2 = p1\<lparr>pos := vec_add (pos p1) (vec_scale (vel p1) dt)\<rparr>;
          p3 = p2\<lparr>hit_rect := set_centerx (to_int (vx (pos p2))) (hit_rect p2)\<rparr>;
          p4 = collide p3 walls AxisX;
          p5 = p4\<lparr>hit_rect := set_centery (to_int (vy (pos p4))) (hit_rect p4)\<rparr>;
          p6 = collide p5 walls AxisY;
          p7 = p6\<lparr>rect := set_centery (centery (hit_rect p6)) (set_centerx (centerx (hit_rect p6)) (rect p6))\<rparr>
      in (p7, [(AxisX, p3), (AxisY, p5)]))"

text \<open>A resolver that leaves the sprite alone, as in a level without walls.\<close>

definition no_walls :: "player \<Rightarrow> rect list \<Rightarrow> axis \<Rightarrow> player" where
  "no_walls p walls ax = p"

subsection \<open>The collision resolver of the spec\<close>









subsection \<open>Example values\<close>

text \<open>
  Values for the constants of the settings module, which is not among the sources; they
  serve the examples only. All four weapons share one table entry.
\<close>

definition example_weapon :: weapon_stats where
  "example_weapon = \<lparr>rate = 150, kickback = 200, weight = 5, clip_size = 12,
     wobble_idle = 1, wobble_walk = 2, wobble_sprint = 4\<rparr>"

definition example_settings :: settings where
  "example_settings =
     \<lparr>PLAYER_HEALTH = 100, PLAYER_STAMINA = 100, PLAYER_SPEED = 250,
      PLAYER_HIT_RECT = \<lparr>rect_x = 0, rect_y = 0, rect_w = 36, rect_h = 36\<rparr>,
      TILESIZE = 64,
      WEAPONS = (\<lambda>name. if name \<in> set [''handgun'', ''rifle'', ''shotgun'', ''knife'']
                         then Some example_weapon else None)\<rparr>"

text \<open>A freshly created player, with an image of 96 by 96 pixels.\<close>

definition example_player :: player where
  "example_player =
     init_player example_settings \<lparr>rect_x = 0, rect_y = 0, rect_w = 96, rect_h = 96\<rparr> 1 1"



text \<open>A pickup that is neither a weapon nor ammunition, worth 20 points of health.\<close>

definition health_pack :: item where
  "health_pack = MiscPickup ''health'' 0 20"







section \<open>Properties of the scheduler\<close>

lemma after_death_state:
  "after_death =
     \<lparr>mobs = [\<lparr>mob_id = 0, can_find_path = False\<rparr>], mob_idx = 2, last_queue_update = 10002\<rparr>"
  by (simp add: after_death_def two_mobs_def run_def new_game_def update_pathfinding_queue_def
      remove_mob_def Let_def)

lemma flag_mobs_length: "length (flag_mobs idx count ms) = length ms"
  by (induction ms arbitrary: count) (simp_all add: Let_def)

text \<open>An index outside the range the counter runs through flags nobody.\<close>

lemma flag_mobs_outside:
  "idx < count \<or> count + int (length ms) \<le> idx \<Longrightarrow>
   filter can_find_path (flag_mobs idx count ms) = []"
  by (induction ms arbitrary: count) (auto simp add: Let_def)

text \<open>
  Once the index is larger than the number of mobs, the test of line 561 never succeeds
  again: a window that fires flags nobody and moves the index further away.
\<close>

lemma stuck_window:
  assumes "int (length (mobs g)) < mob_idx g"
  shows "eligible (update_pathfinding_queue (last_queue_update g + 5001) g) = []"
    and "mob_idx (update_pathfinding_queue (last_queue_update g + 5001) g) = mob_idx g + 1"
    and "length (mobs (update_pathfinding_queue (last_queue_update g + 5001) g)) = length (mobs g)"
  using assms
  by (simp_all add: update_pathfinding_queue_def eligible_def Let_def flag_mobs_length
      flag_mobs_outside)

lemma stuck_fire_windows:
  "int (length (mobs g)) < mob_idx g \<Longrightarrow>
   mob_idx (fire_windows n g) = mob_idx g + int n \<and>
   length (mobs (fire_windows n g)) = length (mobs g) \<and>
   eligible (fire_windows (Suc n) g) = []"
proof (induction n arbitrary: g)
  case 0
  then show ?case by (simp add: stuck_window)
next
  case (Suc n)
  let ?g = "update_pathfinding_queue (last_queue_update g + 5001) g"
  have "int (length (mobs ?g)) < mob_idx ?g"
    using Suc.prems by (simp add: stuck_window)
  from Suc.IH [OF this] show ?case
    using Suc.prems by (simp add: stuck_window)
qed

lemma stuck_dispatches:
  "int (length (mobs g)) < mob_idx g \<Longrightarrow> dispatches n i g = 0"
proof (induction n arbitrary: g)
  case 0
  show ?case by simp
next
  case (Suc n)
  let ?g = "update_pathfinding_queue (last_queue_update g + 5001) g"
  have "int (length (mobs ?g)) < mob_idx ?g"
    using Suc.prems by (simp add: stuck_window)
  from Suc.IH [OF this] show ?case
    using Suc.prems by (simp add: stuck_window Let_def)
qed

lemma flag_mobs_ids: "map mob_id (flag_mobs idx count ms) = map mob_id ms"
  by (induction ms arbitrary: count) (simp_all add: Let_def)

lemma flag_mobs_inside:
  "count \<le> idx \<Longrightarrow> idx < count + int (length ms) \<Longrightarrow>
   filter can_find_path (flag_mobs idx count ms) = [(ms ! nat (idx - count))\<lparr>can_find_path := True\<rparr>]"
proof (induction ms arbitrary: count)
  case Nil
  then show ?case by simp
next
  case (Cons m ms)
  show ?case
  proof (cases "count = idx")
    case True
    then show ?thesis by (simp add: Let_def flag_mobs_outside)
  next
    case False
    with Cons.prems have "count + 1 \<le> idx" "idx < count + 1 + int (length ms)" by simp_all
    moreover have "nat (idx - count) = Suc (nat (idx - (count + 1)))"
      using False Cons.prems by simp
    ultimately show ?thesis
      using Cons.IH [of "count + 1"] False by (simp add: Let_def)
  qed
qed

lemma window_in_range:
  assumes "0 \<le> mob_idx g" "mob_idx g \<le> int (length (mobs g))" "mobs g \<noteq> []"
    and "now - last_queue_update g > 5000"
  shows "eligible (update_pathfinding_queue now g) = [(mobs g ! turn g)\<lparr>can_find_path := True\<rparr>]"
    and "mob_idx (update_pathfinding_queue now g) = int (turn g) + 1"
    and "map mob_id (mobs (update_pathfinding_queue now g)) = map mob_id (mobs g)"
    and "turn g < length (mobs g)"
  using assms
  by (auto simp add: update_pathfinding_queue_def eligible_def turn_def Let_def flag_mobs_inside
      flag_mobs_ids)


lemma wait_less: "t < k \<Longrightarrow> j < k \<Longrightarrow> wait k t j < k"
  unfolding wait_def by auto

lemma wait_next:
  assumes "t < k" "j < k"
  shows "(if t = j then 1 else 0) + (n + k - 1 - wait k (if t + 1 = k then 0 else t + 1) j) div k
         = (Suc n + k - 1 - wait k t j) div k"
proof (cases "t = j")
  case True
  with assms have "wait k (if t + 1 = k then 0 else t + 1) j = k - 1" "wait k t j = 0"
    by (auto simp add: wait_def)
  with True assms show ?thesis by simp
next
  case False
  with assms have "wait k t j = Suc (wait k (if t + 1 = k then 0 else t + 1) j)"
    by (auto simp add: wait_def)
  with False show ?thesis by simp
qed

lemma dispatches_in_range:
  assumes "0 \<le> mob_idx g" "mob_idx g \<le> int (length (mobs g))"
    and "distinct (map mob_id (mobs g))" "j < length (mobs g)"
  shows "dispatches n (mob_id (mobs g ! j)) g
         = (n + length (mobs g) - 1 - wait (length (mobs g)) (turn g) j) div length (mobs g)"
  using assms
proof (induction n arbitrary: g)
  case 0
  let ?k = "length (mobs g)"
  have "turn g < ?k" using 0 by (auto simp add: turn_def)
  then have "wait ?k (turn g) j < ?k" using 0 by (simp add: wait_less)
  then show ?case by simp
next
  case (Suc n)
  let ?k = "length (mobs g)"
  let ?g = "update_pathfinding_queue (last_queue_update g + 5001) g"
  let ?t = "turn g"
  have ne: "mobs g \<noteq> []" using Suc.prems by auto
  have fired: "last_queue_update g + 5001 - last_queue_update g > 5000" by simp
  note w = window_in_range [OF Suc.prems(1,2) ne fired]
  have t: "?t < ?k" by (rule w(4))
  have len: "length (mobs ?g) = ?k"
    using w(3) by (metis length_map)
  have idj: "mob_id (mobs ?g ! j) = mob_id (mobs g ! j)"
    using w(3) Suc.prems(4) len by (metis nth_map)
  have turn': "turn ?g = (if ?t + 1 = ?k then 0 else ?t + 1)"
    using w(2) len by (auto simp add: turn_def)
  have "dispatches n (mob_id (mobs ?g ! j)) ?g
        = (n + length (mobs ?g) - 1 - wait (length (mobs ?g)) (turn ?g) j) div length (mobs ?g)"
  proof (rule Suc.IH)
    show "0 \<le> mob_idx ?g" using w(2) by simp
    show "mob_idx ?g \<le> int (length (mobs ?g))" using w(2) t len by simp
    show "distinct (map mob_id (mobs ?g))" using w(3) Suc.prems(3) by simp
    show "j < length (mobs ?g)" using len Suc.prems(4) by simp
  qed
  then have rest: "dispatches n (mob_id (mobs g ! j)) ?g
        = (n + ?k - 1 - wait ?k (if ?t + 1 = ?k then 0 else ?t + 1) j) div ?k"
    by (simp add: idj len turn')
  have "mob_id (mobs g ! ?t) = mob_id (mobs g ! j) \<longleftrightarrow> ?t = j"
    using nth_eq_iff_index_eq [of "map mob_id (mobs g)" ?t j] Suc.prems(3,4) t by simp
  then have now: "length (filter (\<lambda>m. mob_id m = mob_id (mobs g ! j)) (eligible ?g))
        = (if ?t = j then 1 else 0)"
    by (simp add: w(1))
  have "dispatches (Suc n) (mob_id (mobs g ! j)) g
        = (if ?t = j then 1 else 0) + (n + ?k - 1 - wait ?k (if ?t + 1 = ?k then 0 else ?t + 1) j) div ?k"
    by (simp add: Let_def now rest)
  also have "\<dots> = (Suc n + ?k - 1 - wait ?k ?t j) div ?k"
    using t Suc.prems(4) by (rule wait_next)
  finally show ?case .
qed

text \<open>
  Fairness while the index is in range. In a state whose rotation index lies between 0 and
  the number of mobs, with mobs of distinct identity, each mob is flagged \<open>n div k\<close> or
  \<open>n div k + 1\<close> times in the next \<open>n\<close> windows of a stable population of \<open>k\<close> mobs.
  Every state reached from \<open>Game.new\<close> without a death is such a state.
\<close>

theorem round_robin_fair_in_range:
  assumes "0 \<le> mob_idx g" "mob_idx g \<le> int (length (mobs g))"
    and "distinct (map mob_id (mobs g))" "j < length (mobs g)"
  shows "n div length (mobs g) \<le> dispatches n (mob_id (mobs g ! j)) g \<and>
         dispatches n (mob_id (mobs g ! j)) g \<le> n div length (mobs g) + 1"
proof -
  let ?k = "length (mobs g)"
  let ?w = "wait ?k (turn g) j"
  have k: "0 < ?k" using assms(4) by auto
  have "turn g < ?k" using assms by (auto simp add: turn_def)
  then have w: "?w < ?k" using assms(4) by (simp add: wait_less)
  have d: "dispatches n (mob_id (mobs g ! j)) g = (n + ?k - 1 - ?w) div ?k"
    using assms by (rule dispatches_in_range)
  have "n div ?k \<le> (n + ?k - 1 - ?w) div ?k"
    using w by (intro div_le_mono) simp
  moreover have "(n + ?k - 1 - ?w) div ?k \<le> (n + ?k) div ?k"
    by (intro div_le_mono) simp
  moreover have "(n + ?k) div ?k = n div ?k + 1"
    using k by simp
  ultimately show ?thesis using d by simp
qed

theorem round_robin_fair_in_range_witness:
  "0 \<le> mob_idx (new_game two_mobs) \<and>
   mob_idx (new_game two_mobs) \<le> int (length (mobs (new_game two_mobs))) \<and>
   distinct (map mob_id (mobs (new_game two_mobs))) \<and>
   (1::nat) < length (mobs (new_game two_mobs)) \<and>
   mob_id (mobs (new_game two_mobs) ! 1) = 1 \<and>
   length (mobs (new_game two_mobs)) = 2 \<and>
   dispatches 3 1 (new_game two_mobs) = 1"
proof -
  have a: "0 \<le> mob_idx (new_game two_mobs)"
    "mob_idx (new_game two_mobs) \<le> int (length (mobs (new_game two_mobs)))"
    "distinct (map mob_id (mobs (new_game two_mobs)))"
    "(1::nat) < length (mobs (new_game two_mobs))"
    by (simp_all add: new_game_def two_mobs_def)
  have i: "mob_id (mobs (new_game two_mobs) ! 1) = 1"
    and k: "length (mobs (new_game two_mobs)) = 2"
    by (simp_all add: new_game_def two_mobs_def)
  have "(3::nat) div 2 = 1" by simp
  with round_robin_fair_in_range [OF a, of 3] i k
  have "1 \<le> dispatches 3 1 (new_game two_mobs)" by simp
  moreover have "dispatches 3 1 (new_game two_mobs) = 1"
    by code_simp
  ultimately show ?thesis using a i k by blast
qed

text \<open>
  One window while the index is in range. In a state whose rotation index lies between 0
  and the number of mobs, a window that fires over a non-empty group flags exactly one
  mob, the one whose turn it is, and leaves the index in range.
\<close>

theorem window_in_range_flags_one:
  assumes "0 \<le> mob_idx g" "mob_idx g \<le> int (length (mobs g))" "mobs g \<noteq> []"
    and "now - last_queue_update g > 5000"
  shows "eligible (update_pathfinding_queue now g) = [(mobs g ! turn g)\<lparr>can_find_path := True\<rparr>] \<and>
         0 \<le> mob_idx (update_pathfinding_queue now g) \<and>
         mob_idx (update_pathfinding_queue now g)
           \<le> int (length (mobs (update_pathfinding_queue now g)))"
proof -
  note w = window_in_range [OF assms]
  have "length (mobs (update_pathfinding_queue now g)) = length (mobs g)"
    using w(3) by (metis length_map)
  with w show ?thesis by simp
qed

theorem window_in_range_flags_one_witness:
  "0 \<le> mob_idx (new_game two_mobs) \<and>
   mob_idx (new_game two_mobs) \<le> int (length (mobs (new_game two_mobs))) \<and>
   mobs (new_game two_mobs) \<noteq> [] \<and>
   (5001::int) - last_queue_update (new_game two_mobs) > 5000 \<and>
   eligible (update_pathfinding_queue 5001 (new_game two_mobs))
     = [\<lparr>mob_id = 0, can_find_path = True\<rparr>] \<and>
   mob_idx (update_pathfinding_queue 5001 (new_game two_mobs)) = 1"
proof -
  have a: "0 \<le> mob_idx (new_game two_mobs)"
    "mob_idx (new_game two_mobs) \<le> int (length (mobs (new_game two_mobs)))"
    "mobs (new_game two_mobs) \<noteq> []"
    "(5001::int) - last_queue_update (new_game two_mobs) > 5000"
    by (simp_all add: new_game_def two_mobs_def)
  have "turn (new_game two_mobs) = 0"
    by (simp add: turn_def new_game_def two_mobs_def)
  with window_in_range_flags_one [OF a] a show ?thesis
    by (simp add: new_game_def two_mobs_def update_pathfinding_queue_def Let_def)
qed

text \<open>
  C1. The claim: after every execution of the scheduling step in which a window has
  elapsed, exactly one registered mob is flagged eligible (none only if no mob is
  registered), also in states reached after mobs have been removed between windows.
  The code at a reachable state: two mobs, two windows fire (the index becomes 2), the
  second mob dies, the third window fires. One mob is registered and none is flagged.
\<close>

theorem window_after_death_flags_nobody:
  "length (mobs (run (new_game two_mobs) [Frame 5001, Frame 10002, Death 1, Frame 15003])) = 1 \<and>
   eligible (run (new_game two_mobs) [Frame 5001, Frame 10002, Death 1, Frame 15003]) = []"
  by (simp add: two_mobs_def run_def new_game_def update_pathfinding_queue_def
      remove_mob_def eligible_def Let_def)

text \<open>
  C2. The claim: after the population has shrunk, the rotation index is recomputed modulo
  the new number of mobs before the next window fires, so that it never points past the
  list and at most one turn is lost. The code in the state after the death above: the
  index is 2 with one mob left, every further window adds one to it, and no window ever
  flags the remaining mob again.
\<close>

theorem index_never_recomputed_after_death:
  "mob_idx (fire_windows n after_death) = 2 + int n \<and>
   length (mobs (fire_windows n after_death)) = 1 \<and>
   eligible (fire_windows (Suc n) after_death) = []"
proof -
  have "int (length (mobs after_death)) < mob_idx after_death"
    by (simp add: after_death_state)
  from stuck_fire_windows [OF this, of n] show ?thesis
    by (simp add: after_death_state)
qed

text \<open>
  C5. The claim: over any N consecutive windows with a stable population of k > 0 mobs,
  each mob is flagged N/k times, give or take one, and no mob starves. The code in the
  state after the death above, where k = 1: the remaining mob is flagged in none of the
  next n windows, however large n is.
\<close>

theorem survivor_starves_after_death:
  "length (mobs after_death) = 1 \<and> dispatches n 0 after_death = 0"
proof -
  have "int (length (mobs after_death)) < mob_idx after_death"
    by (simp add: after_death_state)
  from stuck_dispatches [OF this] show ?thesis
    by (simp add: after_death_state)
qed

text \<open>
  C6. When the scheduling step is called and 5000 ms or less have passed since
  \<open>last_queue_update\<close>, it changes nothing: the flags of all mobs, the rotation index and
  \<open>last_queue_update\<close> stay as they are.
\<close>

theorem no_window_no_change:
  "now - last_queue_update g \<le> 5000 \<Longrightarrow> update_pathfinding_queue now g = g"
  by (simp add: update_pathfinding_queue_def)

theorem no_window_no_change_witness:
  "(5000::int) - last_queue_update (new_game two_mobs) \<le> 5000 \<and>
   update_pathfinding_queue 5000 (new_game two_mobs) = new_game two_mobs"
  using no_window_no_change [of 5000 "new_game two_mobs"] by (simp add: new_game_def)

section \<open>Properties of the player\<close>

subsection \<open>Stamina and health\<close>

text \<open>
  C8. A call of \<open>decrease_stamina\<close> never leaves the stamina negative: when the
  subtraction takes it below zero it is set to exactly 0. In full: when the timer lets the
  call through (more than 75 ms since the last decrease), the result is not negative,
  is 0 if the difference is negative and is the difference otherwise; when it does not,
  the player is unchanged; so a stamina that is not negative before the call is not
  negative after it. This holds for every rate, the non-negative ones among them. The
  stamina is a float in the code and an exact real here; only the comparison with 0 matters.
\<close>

theorem decrease_stamina_never_negative:
  "(now - stamina_decrease_time p > 75 \<longrightarrow>
      0 \<le> stamina (decrease_stamina now decrease_rate p) \<and>
      (stamina p - decrease_rate < 0 \<longrightarrow> stamina (decrease_stamina now decrease_rate p) = 0) \<and>
      (0 \<le> stamina p - decrease_rate \<longrightarrow>
         stamina (decrease_stamina now decrease_rate p) = stamina p - decrease_rate)) \<and>
   (\<not> now - stamina_decrease_time p > 75 \<longrightarrow> decrease_stamina now decrease_rate p = p) \<and>
   (0 \<le> stamina p \<longrightarrow> 0 \<le> stamina (decrease_stamina now decrease_rate p))"
  by (simp add: decrease_stamina_def Let_def)

theorem decrease_stamina_never_negative_witness:
  "(100::int) - stamina_decrease_time (example_player\<lparr>stamina := 1\<rparr>) > 75 \<and>
   stamina (example_player\<lparr>stamina := 1\<rparr>) - 5 / 2 < 0 \<and>
   0 \<le> stamina (example_player\<lparr>stamina := 1\<rparr>) \<and>
   stamina (decrease_stamina 100 (5 / 2) (example_player\<lparr>stamina := 1\<rparr>)) = 0 \<and>
   \<not> (50::int) - stamina_decrease_time example_player > 75 \<and>
   decrease_stamina 50 (5 / 2) example_player = example_player"
  using decrease_stamina_never_negative [of 100 "example_player\<lparr>stamina := 1\<rparr>" "5 / 2"]
    decrease_stamina_never_negative [of 50 example_player "5 / 2"]
  by (simp add: example_player_def init_player_def Let_def)

text \<open>
  C9. The claim: after \<open>pickup_item\<close> with a health item the health never exceeds
  \<open>PLAYER_HEALTH\<close>, the excess being clamped. The code: a new player (health 50 of 100)
  picks up three items of 20 points each. The third pickup leaves the health at 110: the
  clamp of line 383 assigns to \<open>self.heatlh\<close>, a misspelt attribute, which receives the
  100, and \<open>self.health\<close> keeps the sum.
\<close>

theorem health_boost_exceeds_player_health:
  "\<exists>p1 p2 p3.
     pickup_item example_settings health_pack example_player = Inr p1 \<and>
     pickup_item example_settings health_pack p1 = Inr p2 \<and>
     pickup_item example_settings health_pack p2 = Inr p3 \<and>
     health p3 = 110 \<and> heatlh p3 = Some 100 \<and> PLAYER_HEALTH example_settings = 100"
  by (simp add: pickup_item_def health_pack_def example_player_def init_player_def
      example_settings_def Let_def)

subsection \<open>The order of moving and resolving\<close>

text \<open>
  C4, as the code has it. In every frame \<open>Player.update\<close> calls the resolver exactly
  twice, for the x axis first and for the y axis second. Before the first call the
  position vector has been advanced by \<open>vel * dt\<close> in both components at once (line 452);
  it is the hit rectangle that moves one axis at a time. At the x call its \<open>centerx\<close> is
  the new x position and its vertical place is still that of the frame's start. At the
  y call the position is the one the x call returned, the \<open>centery\<close> of the hit rectangle
  is the y component of that position and its horizontal place is the one the x call
  left. The frame ends with what the y call returns.
\<close>

theorem update_resolves_x_then_y:
  "\<exists>q1 q2.
     snd (update collide dt walls p) = [(AxisX, q1), (AxisY, q2)] \<and>
     pos q1 = vec_add (pos p) (vec_scale (vel p) dt) \<and>
     centerx (hit_rect q1) = to_int (vx (pos q1)) \<and>
     rect_y (hit_rect q1) = rect_y (hit_rect p) \<and>
     pos q2 = pos (collide q1 walls AxisX) \<and>
     centery (hit_rect q2) = to_int (vy (pos q2)) \<and>
     rect_x (hit_rect q2) = rect_x (hit_rect (collide q1 walls AxisX)) \<and>
     hit_rect (fst (update collide dt walls p)) = hit_rect (collide q2 walls AxisY) \<and>
     pos (fst (update collide dt walls p)) = pos (collide q2 walls AxisY)"
  by (simp add: update_def Let_def centerx_def centery_def set_centerx_def set_centery_def)

text \<open>
  C4, as the claim states it: each call comes after the position has been advanced along
  that axis only, not along both at once. A player at (64, 64) with velocity (250, 250)
  and \<open>dt\<close> = 1/2: when the resolver is called for the x axis, the position is already
  (189, 189), advanced along y as well.
\<close>

theorem update_advances_both_axes_before_x_call:
  "\<exists>q. hd (snd (update no_walls (1 / 2) [] (example_player\<lparr>vel := \<lparr>vx = 250, vy = 250\<rparr>\<rparr>)))
         = (AxisX, q) \<and>
       vx (pos example_player) = 64 \<and> vy (pos example_player) = 64 \<and>
       vx (pos q) = 189 \<and> vy (pos q) = 189"
  by (simp add: update_def Let_def example_player_def init_player_def example_settings_def
      vec_add_def vec_scale_def)

subsection \<open>The resolver of the spec\<close>










subsection \<open>The velocity of a frame\<close>


lemma field_Inr: "field v = Inr a \<longleftrightarrow> v = Some a"
  by (cases v) (simp_all add: field_def)
























end
